theory Spec2Isabelle
  imports Main "HOL-Library.Word"
begin

section \<open>Python values and exceptions\<close>

text \<open>
  The adapter \<^verbatim>\<open>LangChainServeLLMGenerator\<close> of
  \<^verbatim>\<open>garak/generators/langchain_serve.py\<close> is embedded as pure functions.
  A Python \<^verbatim>\<open>str\<close> is represented by its UTF-8 encoding as a \<open>string\<close>:
  every character the code searches for, strips or compares with is ASCII, and a byte
  below 128 occurs in a UTF-8 text exactly where that ASCII character occurs, so emptiness,
  searching, slicing at a found position and concatenation agree with the Python operations.

  A raised exception is a value of type \<open>exn\<close>; a computation that may raise has type
  \<open>exn + 'a\<close> with \<open>Inl\<close> for the exception that leaves it.
\<close>

datatype exn =
    HTTPError               \<comment> \<open>\<^verbatim>\<open>requests.exceptions.HTTPError\<close>\<close>
  | ConnectionError         \<comment> \<open>\<^verbatim>\<open>requests.exceptions.ConnectionError\<close>\<close>
  | Timeout                 \<comment> \<open>\<^verbatim>\<open>requests.exceptions.Timeout\<close>\<close>
  | RequestException        \<comment> \<open>any other \<^verbatim>\<open>requests.exceptions.RequestException\<close>\<close>
  | RequestsJSONDecodeError \<comment> \<open>\<^verbatim>\<open>requests.exceptions.JSONDecodeError\<close>\<close>
  | JSONDecodeError         \<comment> \<open>\<^verbatim>\<open>json.JSONDecodeError\<close>\<close>
  | ValueError
  | TypeError
  | AttributeError
  | KeyError
  | UnboundLocalError
  | OtherException          \<comment> \<open>any other subclass of \<^verbatim>\<open>Exception\<close>\<close>
  | KeyboardInterrupt       \<comment> \<open>a \<^verbatim>\<open>BaseException\<close> that is no \<^verbatim>\<open>Exception\<close>\<close>

text \<open>The \<^verbatim>\<open>isinstance\<close> tests that the \<^verbatim>\<open>except\<close> clauses of the source perform.\<close>

fun is_HTTPError :: "exn \<Rightarrow> bool" where
  "is_HTTPError HTTPError = True"
| "is_HTTPError _ = False"

fun is_RequestException :: "exn \<Rightarrow> bool" where
  "is_RequestException HTTPError = True"
| "is_RequestException ConnectionError = True"
| "is_RequestException Timeout = True"
| "is_RequestException RequestException = True"
| "is_RequestException RequestsJSONDecodeError = True"
| "is_RequestException _ = False"

fun is_JSONDecodeError :: "exn \<Rightarrow> bool" where
  "is_JSONDecodeError RequestsJSONDecodeError = True"
| "is_JSONDecodeError JSONDecodeError = True"
| "is_JSONDecodeError _ = False"

fun is_Exception :: "exn \<Rightarrow> bool" where
  "is_Exception KeyboardInterrupt = False"
| "is_Exception _ = True"

text \<open>
  The result of \<^verbatim>\<open>response.json()\<close>: the Python value of a JSON text. An object is the
  list of the items of the resulting \<^verbatim>\<open>dict\<close>, whose keys are strings. A \<^verbatim>\<open>float\<close>
  is its IEEE 754 binary64 bit pattern: the adapter never computes with one.
\<close>

type_synonym pyfloat = "64 word"

datatype pyval =
    PNone
  | PBool bool
  | PInt int
  | PFloat pyfloat
  | PStr string
  | PList "pyval list"
  | PDict "(string \<times> pyval) list"

section \<open>String operations of Python used by the URI parser\<close>

definition isascii :: "char \<Rightarrow> bool" where
  "isascii c = ((of_char c :: nat) < 128)"

text \<open>\<^verbatim>\<open>str.isalpha\<close> on an ASCII character; the source asks it only of such a one.\<close>

definition isalpha :: "char \<Rightarrow> bool" where
  "isalpha c = (let n = (of_char c :: nat) in (65 \<le> n \<and> n \<le> 90) \<or> (97 \<le> n \<and> n \<le> 122))"

definition lower_char :: "char \<Rightarrow> char" where
  "lower_char c = (let n = (of_char c :: nat) in if 65 \<le> n \<and> n \<le> 90 then char_of (n + 32) else c)"

definition lower :: "string \<Rightarrow> string" where
  "lower s = map lower_char s"

definition scheme_chars :: string where
  "scheme_chars = ''abcdefghijklmnopqrstuvwxyzABCDEFGHIJKLMNOPQRSTUVWXYZ0123456789+-.''"

text \<open>\<^verbatim>\<open>_WHATWG_C0_CONTROL_OR_SPACE\<close>: the characters U+0000 to U+0020.\<close>

definition c0_control_or_space :: "char \<Rightarrow> bool" where
  "c0_control_or_space c = ((of_char c :: nat) \<le> 32)"

text \<open>\<^verbatim>\<open>_UNSAFE_URL_BYTES_TO_REMOVE\<close>: tab, carriage return, line feed.\<close>

definition unsafe_url_byte :: "char \<Rightarrow> bool" where
  "unsafe_url_byte c = (c = CHR 0x09 \<or> c = CHR 0x0D \<or> c = CHR 0x0A)"

text \<open>\<^verbatim>\<open>s.find(c)\<close>: the index of the first occurrence, or \<open>-1\<close>.\<close>

definition find_char :: "char \<Rightarrow> string \<Rightarrow> int" where
  "find_char c s = (if c \<in> set s then int (length (takeWhile (\<lambda>x. x \<noteq> c) s)) else - 1)"

text \<open>\<^verbatim>\<open>s.partition(c)\<close> and \<^verbatim>\<open>s.rpartition(c)\<close>; the middle component says whether the
  separator was found.\<close>

definition partition_char :: "char \<Rightarrow> string \<Rightarrow> string \<times> bool \<times> string" where
  "partition_char c s =
     (if c \<in> set s
      then (takeWhile (\<lambda>x. x \<noteq> c) s, True, tl (dropWhile (\<lambda>x. x \<noteq> c) s))
      else (s, False, []))"

definition rpartition_char :: "char \<Rightarrow> string \<Rightarrow> string \<times> bool \<times> string" where
  "rpartition_char c s =
     (if c \<in> set s
      then (rev (tl (dropWhile (\<lambda>x. x \<noteq> c) (rev s))), True, rev (takeWhile (\<lambda>x. x \<noteq> c) (rev s)))
      else ([], False, s))"

section \<open>The URI parser \<^verbatim>\<open>urllib.parse.urlparse\<close>\<close>

text \<open>
  \<^verbatim>\<open>_validate_uri\<close> reads the \<^verbatim>\<open>scheme\<close> and \<^verbatim>\<open>netloc\<close> of the result of the standard
  library's \<^verbatim>\<open>urlparse\<close>, and catches what it raises. The parser is followed as CPython
  3.12 has it, for these two components and for every \<^verbatim>\<open>raise\<close>; the path, parameters,
  query and fragment come from splits of the remaining text that raise nothing and that
  the adapter never reads.

  Two functions of other standard modules are parameters: Unicode normalisation and the
  parser of IP addresses.
\<close>

datatype ip_kind = IPv4Address | IPv6Address

record stdlib =
  normalize_NFKC :: "string \<Rightarrow> string"       \<comment> \<open>\<^verbatim>\<open>unicodedata.normalize('NFKC', s)\<close>\<close>
  ip_address :: "string \<Rightarrow> ip_kind option"     \<comment> \<open>\<^verbatim>\<open>ipaddress.ip_address(s)\<close>, \<open>None\<close> when it raises \<^verbatim>\<open>ValueError\<close>\<close>

record parse_result =
  scheme :: string
  netloc :: string

text \<open>\<^verbatim>\<open>_coerce_args\<close> with \<^verbatim>\<open>_decode_args\<close>: a \<^verbatim>\<open>str\<close> is taken as it is, and \<^verbatim>\<open>None\<close>,
  being false, is replaced by the empty text.\<close>

definition coerce_args :: "string option \<Rightarrow> string" where
  "coerce_args url = (case url of None \<Rightarrow> [] | Some s \<Rightarrow> s)"

text \<open>\<^verbatim>\<open>_splitnetloc(url, 2)\<close>: the text from index 2 up to the earliest of \<^verbatim>\<open>/\<close>, \<^verbatim>\<open>?\<close>
  and \<^verbatim>\<open>#\<close> found from index 2 on, and the text from there.\<close>

definition netloc_delim :: "char \<Rightarrow> bool" where
  "netloc_delim c = (c = CHR ''/'' \<or> c = CHR ''?'' \<or> c = CHR ''#'')"

definition splitnetloc :: "string \<Rightarrow> string \<times> string" where
  "splitnetloc url =
     (takeWhile (\<lambda>c. \<not> netloc_delim c) (drop 2 url),
      dropWhile (\<lambda>c. \<not> netloc_delim c) (drop 2 url))"

text \<open>\<^verbatim>\<open>re.match(r"\Av[a-fA-F0-9]+\..+\Z", hostname)\<close>.\<close>

definition hex_digit :: "char \<Rightarrow> bool" where
  "hex_digit c = (c \<in> set ''abcdefABCDEF0123456789'')"

definition ipvfuture_match :: "string \<Rightarrow> bool" where
  "ipvfuture_match hostname =
     (case hostname of
        [] \<Rightarrow> False
      | v # rest \<Rightarrow>
          v = CHR ''v'' \<and> takeWhile hex_digit rest \<noteq> [] \<and>
          (case dropWhile hex_digit rest of
             [] \<Rightarrow> False
           | d # after \<Rightarrow> d = CHR ''.'' \<and> after \<noteq> [] \<and> CHR 0x0A \<notin> set after))"

definition check_bracketed_host :: "stdlib \<Rightarrow> string \<Rightarrow> exn + unit" where
  "check_bracketed_host L hostname =
     (if take 1 hostname = ''v''
      then (if \<not> ipvfuture_match hostname then Inl ValueError else Inr ())
      else (case ip_address L hostname of
              None \<Rightarrow> Inl ValueError
            | Some IPv4Address \<Rightarrow> Inl ValueError
            | Some IPv6Address \<Rightarrow> Inr ()))"

definition check_bracketed_netloc :: "stdlib \<Rightarrow> string \<Rightarrow> exn + unit" where
  "check_bracketed_netloc L nl =
     (let hostname_and_port = snd (snd (rpartition_char CHR ''@'' nl));
          (before_bracket, have_open_br, bracketed) = partition_char CHR ''['' hostname_and_port
      in if have_open_br
         then (if before_bracket \<noteq> [] then Inl ValueError
               else (let (hostname, _, port) = partition_char CHR '']'' bracketed
                     in if port \<noteq> [] \<and> take 1 port \<noteq> '':'' then Inl ValueError
                        else check_bracketed_host L hostname))
         else check_bracketed_host L (fst (partition_char CHR '':'' hostname_and_port)))"

definition checknetloc :: "stdlib \<Rightarrow> string \<Rightarrow> exn + unit" where
  "checknetloc L nl =
     (if nl = [] \<or> list_all isascii nl then Inr ()
      else (let n = filter (\<lambda>c. c \<noteq> CHR ''@'' \<and> c \<noteq> CHR '':'' \<and> c \<noteq> CHR ''#'' \<and> c \<noteq> CHR ''?'') nl;
                netloc2 = normalize_NFKC L n
            in if n = netloc2 then Inr ()
               else if list_ex (\<lambda>c. c \<in> set netloc2) ''/?#@:'' then Inl ValueError
               else Inr ()))"

text \<open>The scheme: the text before the first colon, when that text is not empty, starts
  with an ASCII letter and has only characters of \<^verbatim>\<open>scheme_chars\<close>.\<close>

definition split_scheme :: "string \<Rightarrow> string \<times> string" where
  "split_scheme url =
     (let i = find_char CHR '':'' url
      in if i > 0 \<and> isascii (hd url) \<and> isalpha (hd url)
            \<and> list_all (\<lambda>c. c \<in> set scheme_chars) (take (nat i) url)
         then (lower (take (nat i) url), drop (nat i + 1) url)
         else ([], url))"

definition urlsplit :: "stdlib \<Rightarrow> string \<Rightarrow> exn + parse_result" where
  "urlsplit L url0 =
     (let url1 = filter (\<lambda>c. \<not> unsafe_url_byte c) (dropWhile c0_control_or_space url0);
          (sch, url2) = split_scheme url1
      in if take 2 url2 = ''//''
         then (let (nl, url3) = splitnetloc url2
               in if (CHR ''['' \<in> set nl \<and> CHR '']'' \<notin> set nl) \<or> (CHR '']'' \<in> set nl \<and> CHR ''['' \<notin> set nl)
                  then Inl ValueError
                  else (case (if CHR ''['' \<in> set nl \<and> CHR '']'' \<in> set nl
                              then check_bracketed_netloc L nl else Inr ()) of
                          Inl e \<Rightarrow> Inl e
                        | Inr _ \<Rightarrow> (case checknetloc L nl of
                                      Inl e \<Rightarrow> Inl e
                                    | Inr _ \<Rightarrow> Inr \<lparr>scheme = sch, netloc = nl\<rparr>)))
         else (case checknetloc L [] of
                 Inl e \<Rightarrow> Inl e
               | Inr _ \<Rightarrow> Inr \<lparr>scheme = sch, netloc = []\<rparr>))"

definition urlparse :: "stdlib \<Rightarrow> string option \<Rightarrow> exn + parse_result" where
  "urlparse L url = urlsplit L (coerce_args url)"

section \<open>The adapter\<close>

text \<open>\<^verbatim>\<open>logging.error\<close> is recorded as the list of the messages' kinds, oldest first.\<close>

datatype log_event =
    URLParsingError
  | ClientError
  | ServerError
  | RequestFailed
  | NoOutputFound
  | JSONDecodeFailed
  | UnexpectedError

text \<open>
  \<^verbatim>\<open>_validate_uri\<close>: the truth of \<^verbatim>\<open>all([result.scheme, result.netloc])\<close>, a text being
  true when it is not empty; an \<^verbatim>\<open>Exception\<close> of the parser is logged and gives
  \<^verbatim>\<open>False\<close>.
\<close>

definition validate_uri :: "stdlib \<Rightarrow> string option \<Rightarrow> (exn + bool) \<times> log_event list" where
  "validate_uri L uri =
     (case urlparse L uri of
        Inr result \<Rightarrow> (Inr (list_all (\<lambda>s. s \<noteq> []) [scheme result, netloc result]), [])
      | Inl e \<Rightarrow> (if is_Exception e then (Inr False, [URLParsingError]) else (Inl e, [])))"

text \<open>
  The instance: the attributes that \<^verbatim>\<open>__init__\<close> assigns and the two class attributes
  \<^verbatim>\<open>generator_family_name\<close> and \<^verbatim>\<open>config_hash\<close>, which an instance reads as its own.
\<close>

record adapter =
  name :: string
  fullname :: string
  generations :: int
  api_endpoint :: string
  generator_family_name :: string
  config_hash :: string

text \<open>
  \<^verbatim>\<open>os.getenv\<close> reads the process environment, a map from names to texts. The
  constructor of the base class \<^verbatim>\<open>garak.generators.base.Generator\<close> is not among the
  sources; it is a parameter \<open>base_init\<close>, called with the name, the generation count and
  the instance as \<^verbatim>\<open>__init__\<close> has filled it, and it returns the instance or raises.

  The f-string \<^verbatim>\<open>f"{api_uri}/invoke"\<close> formats \<^verbatim>\<open>None\<close> as the text \<^verbatim>\<open>None\<close>.
\<close>

type_synonym environ = "string \<rightharpoonup> string"

type_synonym base_constructor = "string \<Rightarrow> int \<Rightarrow> adapter \<Rightarrow> exn + adapter"

definition format_str :: "string option \<Rightarrow> string" where
  "format_str v = (case v of None \<Rightarrow> ''None'' | Some s \<Rightarrow> s)"

definition init ::
  "stdlib \<Rightarrow> base_constructor \<Rightarrow> environ \<Rightarrow> string \<Rightarrow> int \<Rightarrow> (exn + adapter) \<times> log_event list" where
  "init L base_init env nm gens =
     (let api_uri = env ''LANGCHAIN_SERVE_URI'';
          (valid, logs) = validate_uri L api_uri
      in case valid of
           Inl e \<Rightarrow> (Inl e, logs)
         | Inr ok \<Rightarrow>
             if \<not> ok then (Inl ValueError, logs)
             else (base_init nm gens
                     \<lparr>name = nm,
                      fullname = ''LangChain Serve LLM '' @ nm,
                      generations = gens,
                      api_endpoint = format_str api_uri @ ''/invoke'',
                      generator_family_name = ''LangChainServe'',
                      config_hash = ''default''\<rparr>,
                   logs))"

section \<open>One invocation\<close>

text \<open>
  \<^verbatim>\<open>requests.post\<close> either raises or returns a response. Of a response the adapter reads
  the status code and calls \<^verbatim>\<open>json()\<close>, which gives the parsed body or raises. The remote
  endpoint (with the network in between) is a function from the request to that outcome.
  The \<^verbatim>\<open>data\<close> of the request is the payload that \<^verbatim>\<open>json.dumps\<close> serialises; for a
  prompt that is a \<^verbatim>\<open>str\<close> the serialisation and the two f-strings raise nothing, and
  neither do the messages handed to \<^verbatim>\<open>logging.error\<close>.
\<close>

record request =
  url :: string
  headers :: "(string \<times> string) list"
  data :: pyval

record response =
  status_code :: int
  json_result :: "exn + pyval"

type_synonym endpoint = "request \<Rightarrow> exn + response"

text \<open>\<^verbatim>\<open>Response.raise_for_status\<close> of the requests library.\<close>

definition raise_for_status :: "response \<Rightarrow> exn + unit" where
  "raise_for_status r =
     (if 400 \<le> status_code r \<and> status_code r < 500 then Inl HTTPError
      else if 500 \<le> status_code r \<and> status_code r < 600 then Inl HTTPError
      else Inr ())"

text \<open>The operations on the parsed body: \<^verbatim>\<open>key in x\<close>, \<^verbatim>\<open>x[key]\<close> and \<^verbatim>\<open>x.get(key)\<close>
  for a text \<open>key\<close>.\<close>

primrec str_contains :: "string \<Rightarrow> string \<Rightarrow> bool" where
  "str_contains sub [] = (sub = [])"
| "str_contains sub (c # cs) = (take (length sub) (c # cs) = sub \<or> str_contains sub cs)"

fun py_contains :: "string \<Rightarrow> pyval \<Rightarrow> exn + bool" where
  "py_contains key (PDict items) = Inr (key \<in> set (map fst items))"
| "py_contains key (PList xs) = Inr (PStr key \<in> set xs)"
| "py_contains key (PStr s) = Inr (str_contains key s)"
| "py_contains key _ = Inl TypeError"

fun py_getitem :: "pyval \<Rightarrow> string \<Rightarrow> exn + pyval" where
  "py_getitem (PDict items) key = (case map_of items key of None \<Rightarrow> Inl KeyError | Some v \<Rightarrow> Inr v)"
| "py_getitem _ key = Inl TypeError"

fun py_get :: "pyval \<Rightarrow> string \<Rightarrow> exn + pyval" where
  "py_get (PDict items) key = (case map_of items key of None \<Rightarrow> Inr PNone | Some v \<Rightarrow> Inr v)"
| "py_get _ key = Inl AttributeError"

text \<open>The first \<^verbatim>\<open>try\<close> body: the binding of the local \<^verbatim>\<open>response\<close> (\<open>None\<close> while it is
  unbound) and the exception that leaves the body, if any.\<close>

definition post_and_check :: "endpoint \<Rightarrow> request \<Rightarrow> response option \<times> exn option" where
  "post_and_check ep req =
     (case ep req of
        Inl e \<Rightarrow> (None, Some e)
      | Inr r \<Rightarrow> (Some r, (case raise_for_status r of Inl e \<Rightarrow> Some e | Inr _ \<Rightarrow> None)))"

text \<open>How a handler ends: it returns a value, an exception leaves it, or control goes on
  to the statement after the \<^verbatim>\<open>try\<close>.\<close>

datatype flow = Returned pyval "log_event list" | Raised exn | Proceed

text \<open>The handler of \<^verbatim>\<open>requests.exceptions.HTTPError\<close>. It reads \<^verbatim>\<open>response.status_code\<close>,
  which raises \<^verbatim>\<open>UnboundLocalError\<close> while \<^verbatim>\<open>response\<close> is unbound; it has no \<^verbatim>\<open>else\<close>.\<close>

definition http_error_handler :: "response option \<Rightarrow> flow" where
  "http_error_handler response =
     (case response of
        None \<Rightarrow> Raised UnboundLocalError
      | Some r \<Rightarrow>
          if 400 \<le> status_code r \<and> status_code r < 500 then Returned PNone [ClientError]
          else if 500 \<le> status_code r \<and> status_code r < 600 then Returned PNone [ServerError]
          else Proceed)"

definition first_try :: "endpoint \<Rightarrow> request \<Rightarrow> response option \<times> flow" where
  "first_try ep req =
     (let (response, raised) = post_and_check ep req
      in (response,
          (case raised of
             None \<Rightarrow> Proceed
           | Some e \<Rightarrow>
               if is_HTTPError e then http_error_handler response
               else if is_RequestException e then Returned PNone [RequestFailed]
               else Raised e)))"

text \<open>The body of the second \<^verbatim>\<open>try\<close>, from the parsed body on.\<close>

definition extract_output :: "pyval \<Rightarrow> exn + pyval \<times> log_event list" where
  "extract_output response_data =
     (case py_contains ''output'' response_data of
        Inl e \<Rightarrow> Inl e
      | Inr present \<Rightarrow>
          if \<not> present then Inr (PStr ''No output generated'', [NoOutputFound])
          else (case py_getitem response_data ''output'' of
                  Inl e \<Rightarrow> Inl e
                | Inr v \<Rightarrow>
                    if v = PNone then Inr (PStr ''No output generated'', [NoOutputFound])
                    else (case py_get response_data ''output'' of
                            Inl e \<Rightarrow> Inl e
                          | Inr out \<Rightarrow> Inr (out, []))))"

definition second_try :: "response option \<Rightarrow> (exn + pyval) \<times> log_event list" where
  "second_try response =
     (case (case response of
              None \<Rightarrow> Inl UnboundLocalError
            | Some r \<Rightarrow> (case json_result r of
                          Inl e \<Rightarrow> Inl e
                        | Inr response_data \<Rightarrow> extract_output response_data)) of
        Inr (v, logs) \<Rightarrow> (Inr v, logs)
      | Inl e \<Rightarrow>
          if is_JSONDecodeError e then (Inr PNone, [JSONDecodeFailed])
          else if is_Exception e then (Inr PNone, [UnexpectedError])
          else (Inl e, []))"

text \<open>\<^verbatim>\<open>_call_model\<close>: what it returns or raises, what it logs, and the instance as the
  call leaves it.\<close>

record call_result =
  returned :: "exn + pyval"
  logged :: "log_event list"
  self_after :: adapter

definition build_request :: "adapter \<Rightarrow> string \<Rightarrow> request" where
  "build_request self prompt =
     (let hdrs = [(''Content-Type'', ''application/json''), (''Accept'', ''application/json'')];
          payload = PDict [(''input'', PStr prompt), (''config'', PDict []), (''kwargs'', PDict [])]
      in \<lparr>url = api_endpoint self @ ''?config_hash='' @ config_hash self,
          headers = hdrs, data = payload\<rparr>)"

definition call_model :: "endpoint \<Rightarrow> adapter \<Rightarrow> string \<Rightarrow> call_result" where
  "call_model ep self prompt =
     (let (response, fl) = first_try ep (build_request self prompt)
      in case fl of
           Returned v logs \<Rightarrow> \<lparr>returned = Inr v, logged = logs, self_after = self\<rparr>
         | Raised e \<Rightarrow> \<lparr>returned = Inl e, logged = [], self_after = self\<rparr>
         | Proceed \<Rightarrow>
             (let (res, logs) = second_try response
              in \<lparr>returned = res, logged = logs, self_after = self\<rparr>))"

text \<open>Two invocations in a row with the same prompt against the same endpoint, the second
  on the instance as the first left it.\<close>

definition call_twice :: "endpoint \<Rightarrow> adapter \<Rightarrow> string \<Rightarrow> call_result \<times> call_result" where
  "call_twice ep self prompt =
     (let r1 = call_model ep self prompt;
          r2 = call_model ep (self_after r1) prompt
      in (r1, r2))"

section \<open>The fixtures of the test module\<close>

text \<open>
  \<^verbatim>\<open>requests_mock.post(u, ...)\<close> answers a POST to the address \<open>u\<close> with the registered
  response and lets any other request fail with a connection error; the address is compared
  as the text it is written as, which is how every request below reaches the mock. The instance is the one
  that the tests construct with \<^verbatim>\<open>LANGCHAIN_SERVE_URI=http://127.0.0.1:8000\<close>.
\<close>

definition mock_post :: "string \<Rightarrow> exn + response \<Rightarrow> endpoint" where
  "mock_post u answer req = (if url req = u then answer else Inl ConnectionError)"

definition invoke_url :: string where
  "invoke_url = ''http://127.0.0.1:8000/invoke?config_hash=default''"

definition test_environ :: environ where
  "test_environ = [''LANGCHAIN_SERVE_URI'' \<mapsto> ''http://127.0.0.1:8000'']"

definition test_generator :: adapter where
  "test_generator =
     \<lparr>name = ''test-generator'',
      fullname = ''LangChain Serve LLM test-generator'',
      generations = 10,
      api_endpoint = ''http://127.0.0.1:8000/invoke'',
      generator_family_name = ''LangChainServe'',
      config_hash = ''default''\<rparr>"

text \<open>A base constructor that leaves the instance as it finds it, and a standard library
  whose normalisation changes nothing and whose address parser accepts nothing: stand-ins
  for evaluating at inputs that reach neither.\<close>

definition plain_base :: base_constructor where
  "plain_base nm gens self = Inr self"

definition plain_stdlib :: stdlib where
  "plain_stdlib = \<lparr>normalize_NFKC = (\<lambda>s. s), ip_address = (\<lambda>s. None)\<rparr>"

section \<open>What the parser raises\<close>

lemma check_bracketed_host_raises: "check_bracketed_host L h = Inl e \<Longrightarrow> e = ValueError"
  by (auto simp: check_bracketed_host_def split: if_splits option.splits ip_kind.splits)

lemma check_bracketed_netloc_raises: "check_bracketed_netloc L nl = Inl e \<Longrightarrow> e = ValueError"
  by (auto simp: check_bracketed_netloc_def Let_def split: if_splits prod.splits
      dest: check_bracketed_host_raises)

lemma checknetloc_raises: "checknetloc L nl = Inl e \<Longrightarrow> e = ValueError"
  by (auto simp: checknetloc_def Let_def split: if_splits)

lemma urlsplit_raises: "urlsplit L u = Inl e \<Longrightarrow> e = ValueError"
  by (auto simp: urlsplit_def Let_def split: if_splits prod.splits sum.splits
      dest: check_bracketed_netloc_raises checknetloc_raises)

lemma urlparse_raises: "urlparse L uri = Inl e \<Longrightarrow> e = ValueError"
  by (auto simp: urlparse_def dest: urlsplit_raises)

lemma validate_uri_value:
  "fst (validate_uri L uri) =
     Inr (\<exists>r. urlparse L uri = Inr r \<and> scheme r \<noteq> [] \<and> netloc r \<noteq> [])"
proof (cases "urlparse L uri")
  case (Inl e)
  then have "is_Exception e" by (auto dest: urlparse_raises)
  with Inl show ?thesis by (simp add: validate_uri_def)
next
  case (Inr r)
  then show ?thesis by (simp add: validate_uri_def)
qed

text \<open>The parser on the texts of the specification's examples, whatever the two library
  functions are: none of these texts has a bracket or a character beyond ASCII.\<close>

lemmas url_defs =
  validate_uri_def urlparse_def urlsplit_def coerce_args_def split_scheme_def find_char_def
  isascii_def isalpha_def scheme_chars_def lower_def lower_char_def splitnetloc_def
  netloc_delim_def checknetloc_def c0_control_or_space_def unsafe_url_byte_def

lemma urlparse_loopback:
  "urlparse L (Some ''http://127.0.0.1:8000'') = Inr \<lparr>scheme = ''http'', netloc = ''127.0.0.1:8000''\<rparr>"
  by (simp add: url_defs)

lemma validate_loopback: "validate_uri L (Some ''http://127.0.0.1:8000'') = (Inr True, [])"
  by (simp add: validate_uri_def urlparse_loopback)

lemma validate_bad_uri: "validate_uri L (Some ''bad_uri'') = (Inr False, [])"
  by (simp add: url_defs)

lemma validate_empty: "validate_uri L (Some []) = (Inr False, [])"
  by (simp add: url_defs)

lemma validate_path: "validate_uri L (Some ''/just/a/path'') = (Inr False, [])"
  by (simp add: url_defs)

lemma validate_unset: "validate_uri L None = (Inr False, [])"
  by (simp add: url_defs)

lemma urlparse_open_bracket: "urlparse L (Some ''http://[::1'') = Inl ValueError"
  by (simp add: url_defs)

section \<open>URI validation\<close>

text \<open>
  Claim C4. For every input text, \<^verbatim>\<open>_validate_uri\<close> returns true exactly when the text
  parses into a result whose scheme and whose network location are both non-empty; it
  returns false for \<^verbatim>\<open>bad_uri\<close>, for the empty text and for \<^verbatim>\<open>/just/a/path\<close>, and true for
  \<^verbatim>\<open>http://127.0.0.1:8000\<close>.
\<close>

theorem validate_uri_iff:
  "fst (validate_uri L (Some s)) =
     Inr (\<exists>r. urlparse L (Some s) = Inr r \<and> scheme r \<noteq> [] \<and> netloc r \<noteq> []) \<and>
   fst (validate_uri L (Some ''bad_uri'')) = Inr False \<and>
   fst (validate_uri L (Some [])) = Inr False \<and>
   fst (validate_uri L (Some ''/just/a/path'')) = Inr False \<and>
   fst (validate_uri L (Some ''http://127.0.0.1:8000'')) = Inr True"
proof -
  have "fst (validate_uri L (Some s)) =
          Inr (\<exists>r. urlparse L (Some s) = Inr r \<and> scheme r \<noteq> [] \<and> netloc r \<noteq> [])"
    by (rule validate_uri_value)
  moreover have "fst (validate_uri L (Some ''bad_uri'')) = Inr False"
    by (simp add: validate_bad_uri)
  moreover have "fst (validate_uri L (Some [])) = Inr False"
    by (simp add: validate_empty)
  moreover have "fst (validate_uri L (Some ''/just/a/path'')) = Inr False"
    by (simp add: validate_path)
  moreover have "fst (validate_uri L (Some ''http://127.0.0.1:8000'')) = Inr True"
    by (simp add: validate_loopback)
  ultimately show ?thesis by blast
qed

theorem validate_uri_iff_witness:
  "fst (validate_uri plain_stdlib (Some ''http://127.0.0.1:8000'')) = Inr True \<and>
   (\<exists>r. urlparse plain_stdlib (Some ''http://127.0.0.1:8000'') = Inr r \<and>
        scheme r = ''http'' \<and> netloc r = ''127.0.0.1:8000'')"
  using validate_uri_iff [of plain_stdlib "''http://127.0.0.1:8000''"]
    urlparse_loopback [of plain_stdlib]
  by simp

text \<open>
  Claim C8. \<^verbatim>\<open>_validate_uri\<close> raises for no input: it returns a truth value whatever the
  text is (and when the variable is unset), and where the parser raises, the exception is
  caught, logged and turned into false.
\<close>

theorem validate_uri_never_raises:
  "(\<exists>b. fst (validate_uri L uri) = Inr b) \<and>
   (\<forall>e. urlparse L uri = Inl e \<longrightarrow> validate_uri L uri = (Inr False, [URLParsingError]))"
proof (cases "urlparse L uri")
  case (Inl e)
  then have "e = ValueError" by (rule urlparse_raises)
  with Inl show ?thesis by (auto simp: validate_uri_def)
next
  case (Inr r)
  then show ?thesis by (simp add: validate_uri_def)
qed

theorem validate_uri_never_raises_witness:
  "urlparse plain_stdlib (Some ''http://[::1'') = Inl ValueError \<and>
   validate_uri plain_stdlib (Some ''http://[::1'') = (Inr False, [URLParsingError])"
  using validate_uri_never_raises [of plain_stdlib "Some ''http://[::1''"]
    urlparse_open_bracket [of plain_stdlib]
  by simp

section \<open>Construction\<close>

lemma init_at_test_environ:
  "init plain_stdlib plain_base test_environ ''test-generator'' 10 = (Inr test_generator, [])"
  by (simp add: init_def test_environ_def validate_loopback plain_base_def format_str_def
      test_generator_def)

text \<open>
  Claim C5. When \<^verbatim>\<open>LANGCHAIN_SERVE_URI\<close> is unset, is empty, or does not parse into a
  result with both a scheme and a network location, constructing the generator raises the
  configuration error \<^verbatim>\<open>ValueError\<close>, whatever the base constructor would do, and so yields no
  instance.
\<close>

theorem init_invalid_uri_raises:
  assumes "env ''LANGCHAIN_SERVE_URI'' = None \<or> env ''LANGCHAIN_SERVE_URI'' = Some [] \<or>
           (\<exists>s. env ''LANGCHAIN_SERVE_URI'' = Some s \<and>
                \<not> (\<exists>r. urlparse L (Some s) = Inr r \<and> scheme r \<noteq> [] \<and> netloc r \<noteq> []))"
  shows "fst (init L base_init env nm gens) = Inl ValueError \<and>
         (\<forall>g. fst (init L base_init env nm gens) \<noteq> Inr g)"
proof -
  have invalid: "fst (validate_uri L (env ''LANGCHAIN_SERVE_URI'')) = Inr False"
    using assms validate_unset [of L] validate_empty [of L]
      validate_uri_value [of L "env ''LANGCHAIN_SERVE_URI''"]
    by auto
  obtain valid logs where v: "validate_uri L (env ''LANGCHAIN_SERVE_URI'') = (valid, logs)"
    by (cases "validate_uri L (env ''LANGCHAIN_SERVE_URI'')")
  with invalid have "valid = Inr False" by simp
  with v show ?thesis by (simp add: init_def)
qed

theorem init_invalid_uri_raises_witness:
  "fst (init plain_stdlib plain_base Map.empty ''test-generator'' 10) = Inl ValueError \<and>
   fst (init plain_stdlib plain_base [''LANGCHAIN_SERVE_URI'' \<mapsto> []] ''test-generator'' 10) = Inl ValueError \<and>
   fst (init plain_stdlib plain_base [''LANGCHAIN_SERVE_URI'' \<mapsto> ''bad_uri''] ''test-generator'' 10)
     = Inl ValueError"
proof -
  have bad: "\<not> (\<exists>r. urlparse plain_stdlib (Some ''bad_uri'') = Inr r \<and> scheme r \<noteq> [] \<and> netloc r \<noteq> [])"
    using validate_uri_value [of plain_stdlib "Some ''bad_uri''"] validate_bad_uri [of plain_stdlib]
    by simp
  have "fst (init plain_stdlib plain_base Map.empty ''test-generator'' 10) = Inl ValueError"
    using init_invalid_uri_raises [of Map.empty plain_stdlib plain_base "''test-generator''" 10]
    by simp
  moreover
  have "fst (init plain_stdlib plain_base [''LANGCHAIN_SERVE_URI'' \<mapsto> []] ''test-generator'' 10)
          = Inl ValueError"
    using init_invalid_uri_raises
      [of "[''LANGCHAIN_SERVE_URI'' \<mapsto> []]" plain_stdlib plain_base "''test-generator''" 10]
    by simp
  moreover
  have "fst (init plain_stdlib plain_base [''LANGCHAIN_SERVE_URI'' \<mapsto> ''bad_uri''] ''test-generator'' 10)
          = Inl ValueError"
    using bad init_invalid_uri_raises
      [of "[''LANGCHAIN_SERVE_URI'' \<mapsto> ''bad_uri'']" plain_stdlib plain_base "''test-generator''" 10]
    by simp
  ultimately show ?thesis by blast
qed

text \<open>
  Claim C7. After every successful construction the stored \<^verbatim>\<open>api_endpoint\<close> is the
  validated base URI followed by \<^verbatim>\<open>/invoke\<close>; with
  \<^verbatim>\<open>LANGCHAIN_SERVE_URI=http://127.0.0.1:8000\<close> it is \<^verbatim>\<open>http://127.0.0.1:8000/invoke\<close>.
  The base constructor runs after the assignment; it is taken to leave \<^verbatim>\<open>api_endpoint\<close>
  as it finds it.
\<close>

theorem init_api_endpoint:
  assumes frame: "\<forall>n k s s'. base_init n k s = Inr s' \<longrightarrow> api_endpoint s' = api_endpoint s"
      and ok: "fst (init L base_init env nm gens) = Inr g"
  shows "(\<exists>uri. env ''LANGCHAIN_SERVE_URI'' = Some uri \<and>
               fst (validate_uri L (Some uri)) = Inr True \<and>
               api_endpoint g = uri @ ''/invoke'') \<and>
         (env ''LANGCHAIN_SERVE_URI'' = Some ''http://127.0.0.1:8000'' \<longrightarrow>
            api_endpoint g = ''http://127.0.0.1:8000/invoke'')"
proof -
  obtain valid logs where v: "validate_uri L (env ''LANGCHAIN_SERVE_URI'') = (valid, logs)"
    by (cases "validate_uri L (env ''LANGCHAIN_SERVE_URI'')")
  from ok v have t: "valid = Inr True"
    by (auto simp: init_def Let_def split: sum.splits if_splits)
  with v validate_unset [of L] obtain uri where u: "env ''LANGCHAIN_SERVE_URI'' = Some uri"
    by (cases "env ''LANGCHAIN_SERVE_URI''") auto
  from ok v t u frame have "api_endpoint g = uri @ ''/invoke''"
    by (auto simp: init_def Let_def format_str_def)
  with v t u show ?thesis by auto
qed

theorem init_api_endpoint_witness:
  "fst (init plain_stdlib plain_base test_environ ''test-generator'' 10) = Inr test_generator \<and>
   test_environ ''LANGCHAIN_SERVE_URI'' = Some ''http://127.0.0.1:8000'' \<and>
   api_endpoint test_generator = ''http://127.0.0.1:8000/invoke''"
proof -
  have frame: "\<forall>n k s s'. plain_base n k s = Inr s' \<longrightarrow> api_endpoint s' = api_endpoint s"
    by (simp add: plain_base_def)
  have ok: "fst (init plain_stdlib plain_base test_environ ''test-generator'' 10) = Inr test_generator"
    by (simp add: init_at_test_environ)
  have env: "test_environ ''LANGCHAIN_SERVE_URI'' = Some ''http://127.0.0.1:8000''"
    by (simp add: test_environ_def)
  from init_api_endpoint [OF frame ok] env ok show ?thesis by simp
qed

section \<open>Invocation: the two \<^verbatim>\<open>try\<close> statements\<close>

lemma first_try_returns:
  "ep req = Inr r \<Longrightarrow>
   first_try ep req =
     (Some r,
      if 400 \<le> status_code r \<and> status_code r < 500 then Returned PNone [ClientError]
      else if 500 \<le> status_code r \<and> status_code r < 600 then Returned PNone [ServerError]
      else Proceed)"
  by (simp add: first_try_def post_and_check_def raise_for_status_def http_error_handler_def)

lemma first_try_raises:
  "ep req = Inl e \<Longrightarrow>
   first_try ep req =
     (None,
      if is_HTTPError e then Raised UnboundLocalError
      else if is_RequestException e then Returned PNone [RequestFailed]
      else Raised e)"
  by (simp add: first_try_def post_and_check_def http_error_handler_def)

lemma call_model_no_error_status:
  assumes "ep (build_request self prompt) = Inr r"
      and "\<not> (400 \<le> status_code r \<and> status_code r < 600)"
  shows "returned (call_model ep self prompt) = fst (second_try (Some r))"
  using assms by (auto simp: call_model_def first_try_returns split: prod.splits)

lemma call_model_error_status:
  assumes "ep (build_request self prompt) = Inr r"
      and "400 \<le> status_code r" and "status_code r < 600"
  shows "returned (call_model ep self prompt) = Inr PNone"
  using assms by (auto simp: call_model_def first_try_returns split: prod.splits)

text \<open>What the exception handling of the first \<^verbatim>\<open>try\<close> leaves uncaught: an exception of
  \<^verbatim>\<open>requests.post\<close> outside the \<^verbatim>\<open>RequestException\<close> family leaves \<^verbatim>\<open>_call_model\<close>, and
  an \<^verbatim>\<open>HTTPError\<close> raised by the POST itself would reach the handler with \<^verbatim>\<open>response\<close>
  unbound.\<close>

lemma call_model_foreign_exception:
  "ep (build_request self prompt) = Inl e \<Longrightarrow> \<not> is_RequestException e \<Longrightarrow>
   returned (call_model ep self prompt) = Inl e"
  by (cases e) (simp_all add: call_model_def first_try_raises)

lemma call_model_post_raises_http_error:
  "ep (build_request self prompt) = Inl HTTPError \<Longrightarrow>
   returned (call_model ep self prompt) = Inl UnboundLocalError"
  by (simp add: call_model_def first_try_raises)

lemma second_try_never_raises:
  assumes "\<forall>e. json_result r = Inl e \<longrightarrow> is_Exception e"
  shows "\<exists>v. fst (second_try (Some r)) = Inr v"
proof (cases "json_result r")
  case (Inl e)
  with assms show ?thesis by (simp add: second_try_def)
next
  case (Inr body)
  then show ?thesis
    by (cases body) (auto simp: second_try_def extract_output_def split: option.splits)
qed

lemma second_try_parse_failure:
  "json_result r = Inl e \<Longrightarrow> is_Exception e \<Longrightarrow> fst (second_try (Some r)) = Inr PNone"
  by (simp add: second_try_def)

lemma py_contains_dict: "py_contains key (PDict items) = Inr (map_of items key \<noteq> None)"
  by (simp add: map_of_eq_None_iff)

lemma extract_output_dict:
  "extract_output (PDict items) =
     (case map_of items ''output'' of
        None \<Rightarrow> Inr (PStr ''No output generated'', [NoOutputFound])
      | Some v \<Rightarrow>
          if v = PNone then Inr (PStr ''No output generated'', [NoOutputFound]) else Inr (v, []))"
  unfolding extract_output_def py_contains_dict
  by (cases "map_of items ''output''") simp_all

lemma second_try_dict:
  "json_result r = Inr (PDict items) \<Longrightarrow>
   second_try (Some r) =
     (case map_of items ''output'' of
        None \<Rightarrow> (Inr (PStr ''No output generated''), [NoOutputFound])
      | Some v \<Rightarrow>
          if v = PNone then (Inr (PStr ''No output generated''), [NoOutputFound]) else (Inr v, []))"
  by (simp add: second_try_def extract_output_dict split: option.splits)

lemma second_try_scalar:
  assumes "json_result r = Inr body"
      and "(\<exists>n. body = PInt n) \<or> (\<exists>x. body = PFloat x) \<or> (\<exists>b. body = PBool b) \<or> body = PNone"
  shows "second_try (Some r) = (Inr PNone, [UnexpectedError])"
  using assms by (auto simp: second_try_def extract_output_def)

lemma second_try_no_member:
  assumes "json_result r = Inr body"
      and "(\<exists>xs. body = PList xs \<and> PStr ''output'' \<notin> set xs) \<or>
           (\<exists>s. body = PStr s \<and> \<not> str_contains ''output'' s)"
  shows "second_try (Some r) = (Inr (PStr ''No output generated''), [NoOutputFound])"
  using assms by (auto simp: second_try_def extract_output_def)

text \<open>The mocked endpoint is reached by the request of the test instance.\<close>

lemma mock_post_reached: "mock_post invoke_url answer (build_request test_generator prompt) = answer"
  by (simp add: mock_post_def invoke_url_def build_request_def test_generator_def)

section \<open>Invocation: results\<close>

text \<open>
  Claim C1, as amended. When \<^verbatim>\<open>_call_model\<close> receives a 2xx response whose body parses as
  a JSON object that has no \<^verbatim>\<open>output\<close> member or whose \<^verbatim>\<open>output\<close> member is null, it
  returns the text \<^verbatim>\<open>No output generated\<close>, which is not \<^verbatim>\<open>None\<close>; so it does for an array
  with no element equal to the text \<^verbatim>\<open>output\<close> and for a JSON string that does not
  contain \<^verbatim>\<open>output\<close>. When the body parses as a number, a boolean or null, the membership
  test raises \<^verbatim>\<open>TypeError\<close> and the last handler returns \<^verbatim>\<open>None\<close>.
\<close>

theorem call_model_no_output:
  assumes "ep (build_request self prompt) = Inr r"
      and "200 \<le> status_code r" and "status_code r < 300"
      and "json_result r = Inr body"
  shows "((\<exists>items. body = PDict items \<and>
             (map_of items ''output'' = None \<or> map_of items ''output'' = Some PNone)) \<or>
          (\<exists>xs. body = PList xs \<and> PStr ''output'' \<notin> set xs) \<or>
          (\<exists>s. body = PStr s \<and> \<not> str_contains ''output'' s)
          \<longrightarrow> returned (call_model ep self prompt) = Inr (PStr ''No output generated'') \<and>
              returned (call_model ep self prompt) \<noteq> Inr PNone) \<and>
         ((\<exists>n. body = PInt n) \<or> (\<exists>x. body = PFloat x) \<or> (\<exists>b. body = PBool b) \<or> body = PNone
          \<longrightarrow> returned (call_model ep self prompt) = Inr PNone)"
proof -
  from assms have eq: "returned (call_model ep self prompt) = fst (second_try (Some r))"
    by (simp add: call_model_no_error_status)
  have object: "fst (second_try (Some r)) = Inr (PStr ''No output generated'')"
    if "body = PDict items"
      and "map_of items ''output'' = None \<or> map_of items ''output'' = Some PNone" for items
    using that assms(4) by (auto simp: second_try_dict)
  have other: "fst (second_try (Some r)) = Inr (PStr ''No output generated'')"
    if "(\<exists>xs. body = PList xs \<and> PStr ''output'' \<notin> set xs) \<or>
        (\<exists>s. body = PStr s \<and> \<not> str_contains ''output'' s)"
    using second_try_no_member [OF assms(4) that] by simp
  have scalar: "fst (second_try (Some r)) = Inr PNone"
    if "(\<exists>n. body = PInt n) \<or> (\<exists>x. body = PFloat x) \<or> (\<exists>b. body = PBool b) \<or> body = PNone"
    using second_try_scalar [OF assms(4) that] by simp
  from eq object other scalar show ?thesis by auto
qed

theorem call_model_no_output_witness:
  "returned (call_model (mock_post invoke_url (Inr \<lparr>status_code = 200, json_result = Inr (PDict [])\<rparr>))
      test_generator ''This should not find output'') = Inr (PStr ''No output generated'')"
  using call_model_no_output
    [of "mock_post invoke_url (Inr \<lparr>status_code = 200, json_result = Inr (PDict [])\<rparr>)"
        test_generator "''This should not find output''"
        "\<lparr>status_code = 200, json_result = Inr (PDict [])\<rparr>" "PDict []"]
  by (simp add: mock_post_reached)

text \<open>
  Claim C1 as it is stated fails: a response with status 200 whose body is the JSON text
  \<^verbatim>\<open>null\<close> parses, has no \<^verbatim>\<open>output\<close> field, and gives \<^verbatim>\<open>None\<close>, not the sentinel.
\<close>

theorem call_model_null_body_counterexample:
  "returned (call_model (mock_post invoke_url (Inr \<lparr>status_code = 200, json_result = Inr PNone\<rparr>))
      test_generator ''This should not find output'') = Inr PNone \<and>
   returned (call_model (mock_post invoke_url (Inr \<lparr>status_code = 200, json_result = Inr PNone\<rparr>))
      test_generator ''This should not find output'') \<noteq> Inr (PStr ''No output generated'')"
proof -
  have "returned (call_model (mock_post invoke_url (Inr \<lparr>status_code = 200, json_result = Inr PNone\<rparr>))
      test_generator ''This should not find output'')
        = fst (second_try (Some \<lparr>status_code = 200, json_result = Inr PNone\<rparr>))"
    by (rule call_model_no_error_status) (simp_all add: mock_post_reached)
  also have "\<dots> = Inr PNone"
    by (simp add: second_try_def extract_output_def)
  finally show ?thesis by simp
qed

text \<open>
  Claim C2. When \<^verbatim>\<open>_call_model\<close> receives a response whose status is in 400-499 or in
  500-599, it returns \<^verbatim>\<open>None\<close>; no exception leaves the call.
\<close>

theorem call_model_http_error_status:
  assumes "ep (build_request self prompt) = Inr r"
      and "400 \<le> status_code r \<and> status_code r < 500 \<or> 500 \<le> status_code r \<and> status_code r < 600"
  shows "returned (call_model ep self prompt) = Inr PNone"
proof -
  from assms(2) have "400 \<le> status_code r" and "status_code r < 600" by auto
  with assms(1) show ?thesis by (rule call_model_error_status)
qed

theorem call_model_http_error_status_witness:
  "returned (call_model (mock_post invoke_url (Inr \<lparr>status_code = 500, json_result = Inl RequestsJSONDecodeError\<rparr>))
      test_generator ''This should raise an error'') = Inr PNone"
  using call_model_http_error_status
    [of "mock_post invoke_url (Inr \<lparr>status_code = 500, json_result = Inl RequestsJSONDecodeError\<rparr>)"
        test_generator "''This should raise an error''"
        "\<lparr>status_code = 500, json_result = Inl RequestsJSONDecodeError\<rparr>"]
  by (simp add: mock_post_reached)

text \<open>
  Claim C6. When \<^verbatim>\<open>_call_model\<close> receives a 2xx response whose body parses as JSON with an
  \<^verbatim>\<open>output\<close> member that is present and not null, it returns that member's value as it is,
  whatever its shape; for the body \<^verbatim>\<open>{"output": ["Generated text"]}\<close> the result is a
  sequence whose first element is \<^verbatim>\<open>Generated text\<close>.
\<close>

theorem call_model_output_verbatim:
  assumes "ep (build_request self prompt) = Inr r"
      and "200 \<le> status_code r" and "status_code r < 300"
      and "json_result r = Inr (PDict items)"
      and "map_of items ''output'' = Some v" and "v \<noteq> PNone"
  shows "returned (call_model ep self prompt) = Inr v \<and>
         (items = [(''output'', PList [PStr ''Generated text''])] \<longrightarrow>
            (\<exists>rest. returned (call_model ep self prompt) = Inr (PList (PStr ''Generated text'' # rest))))"
proof -
  from assms(1-3) have "returned (call_model ep self prompt) = fst (second_try (Some r))"
    by (simp add: call_model_no_error_status)
  also from assms(4-6) have "\<dots> = Inr v"
    by (simp add: second_try_dict)
  finally have out: "returned (call_model ep self prompt) = Inr v" .
  with assms(5) show ?thesis by auto
qed

theorem call_model_output_verbatim_witness:
  "returned (call_model
      (mock_post invoke_url
         (Inr \<lparr>status_code = 200, json_result = Inr (PDict [(''output'', PList [PStr ''Generated text''])])\<rparr>))
      test_generator ''Hello LangChain!'') = Inr (PList [PStr ''Generated text''])"
  using call_model_output_verbatim
    [of "mock_post invoke_url
           (Inr \<lparr>status_code = 200, json_result = Inr (PDict [(''output'', PList [PStr ''Generated text''])])\<rparr>)"
        test_generator "''Hello LangChain!''"
        "\<lparr>status_code = 200, json_result = Inr (PDict [(''output'', PList [PStr ''Generated text''])])\<rparr>"
        "[(''output'', PList [PStr ''Generated text''])]" "PList [PStr ''Generated text'']"]
  by (simp add: mock_post_reached)

text \<open>
  Claim C3, as amended. The first \<^verbatim>\<open>try\<close> of \<^verbatim>\<open>_call_model\<close> catches the
  \<^verbatim>\<open>RequestException\<close> family of the requests library and nothing else. An exception of
  that family raised by the POST (other than \<^verbatim>\<open>HTTPError\<close>, which comes from
  \<^verbatim>\<open>raise_for_status\<close>), an HTTP error status and a body for which \<^verbatim>\<open>json()\<close> raises an
  \<^verbatim>\<open>Exception\<close> are each absorbed and turned into the return value \<^verbatim>\<open>None\<close>, and once the
  POST has returned a response the call returns a value. An exception of the POST outside
  that family is not caught: it leaves \<^verbatim>\<open>_call_model\<close> as it is. The configuration error is
  raised by the constructor.
\<close>

theorem call_model_absorbs_failures:
  "(\<forall>e. ep (build_request self prompt) = Inl e \<and> is_RequestException e \<and> \<not> is_HTTPError e
        \<longrightarrow> returned (call_model ep self prompt) = Inr PNone) \<and>
   (\<forall>e. ep (build_request self prompt) = Inl e \<and> \<not> is_RequestException e
        \<longrightarrow> returned (call_model ep self prompt) = Inl e) \<and>
   (\<forall>r. ep (build_request self prompt) = Inr r \<and> 400 \<le> status_code r \<and> status_code r < 600
        \<longrightarrow> returned (call_model ep self prompt) = Inr PNone) \<and>
   (\<forall>r e. ep (build_request self prompt) = Inr r \<and> json_result r = Inl e \<and> is_Exception e
        \<longrightarrow> returned (call_model ep self prompt) = Inr PNone) \<and>
   (\<forall>r. ep (build_request self prompt) = Inr r \<and> (\<forall>e. json_result r = Inl e \<longrightarrow> is_Exception e)
        \<longrightarrow> (\<exists>v. returned (call_model ep self prompt) = Inr v)) \<and>
   (fst (validate_uri L (env ''LANGCHAIN_SERVE_URI'')) = Inr False
        \<longrightarrow> fst (init L base_init env nm gens) = Inl ValueError)"
proof -
  have config: "fst (init L base_init env nm gens) = Inl ValueError"
    if "fst (validate_uri L (env ''LANGCHAIN_SERVE_URI'')) = Inr False"
    using that by (cases "validate_uri L (env ''LANGCHAIN_SERVE_URI'')") (simp add: init_def)
  have family: "returned (call_model ep self prompt) = Inr PNone"
    if "ep (build_request self prompt) = Inl e" and "is_RequestException e" and "\<not> is_HTTPError e"
    for e
    using that by (simp add: call_model_def first_try_raises)
  have foreign: "returned (call_model ep self prompt) = Inl e"
    if "ep (build_request self prompt) = Inl e" and "\<not> is_RequestException e" for e
    using that by (rule call_model_foreign_exception)
  have status: "returned (call_model ep self prompt) = Inr PNone"
    if "ep (build_request self prompt) = Inr r" and "400 \<le> status_code r" and "status_code r < 600"
    for r
    using that by (rule call_model_error_status)
  have gives_value: "\<exists>v. returned (call_model ep self prompt) = Inr v"
    if got: "ep (build_request self prompt) = Inr r"
      and ex: "\<forall>e. json_result r = Inl e \<longrightarrow> is_Exception e" for r
  proof (cases "400 \<le> status_code r \<and> status_code r < 600")
    case True
    with got status show ?thesis by blast
  next
    case False
    with got have "returned (call_model ep self prompt) = fst (second_try (Some r))"
      by (rule call_model_no_error_status)
    with second_try_never_raises [OF ex] show ?thesis by simp
  qed
  have unparsed: "returned (call_model ep self prompt) = Inr PNone"
    if got: "ep (build_request self prompt) = Inr r"
      and bad: "json_result r = Inl e" and exc: "is_Exception e" for r e
  proof (cases "400 \<le> status_code r \<and> status_code r < 600")
    case True
    with got status show ?thesis by blast
  next
    case False
    with got have "returned (call_model ep self prompt) = fst (second_try (Some r))"
      by (rule call_model_no_error_status)
    with second_try_parse_failure [OF bad exc] show ?thesis by simp
  qed
  from config family foreign status gives_value unparsed show ?thesis by blast
qed

theorem call_model_absorbs_failures_witness:
  "returned (call_model (mock_post invoke_url (Inl Timeout)) test_generator ''Hello LangChain!'')
     = Inr PNone \<and>
   returned (call_model (mock_post invoke_url (Inl KeyboardInterrupt)) test_generator ''Hello LangChain!'')
     = Inl KeyboardInterrupt \<and>
   returned (call_model (mock_post invoke_url (Inr \<lparr>status_code = 503, json_result = Inl JSONDecodeError\<rparr>))
      test_generator ''Hello LangChain!'') = Inr PNone \<and>
   returned (call_model (mock_post invoke_url (Inr \<lparr>status_code = 200, json_result = Inl JSONDecodeError\<rparr>))
      test_generator ''Hello LangChain!'') = Inr PNone"
proof -
  have "returned (call_model (mock_post invoke_url (Inl Timeout)) test_generator ''Hello LangChain!'')
          = Inr PNone"
    using call_model_absorbs_failures
      [of "mock_post invoke_url (Inl Timeout)" test_generator "''Hello LangChain!''"]
    by (simp add: mock_post_reached)
  moreover
  have "returned (call_model (mock_post invoke_url (Inl KeyboardInterrupt)) test_generator ''Hello LangChain!'')
          = Inl KeyboardInterrupt"
    using call_model_absorbs_failures
      [of "mock_post invoke_url (Inl KeyboardInterrupt)" test_generator "''Hello LangChain!''"]
    by (simp add: mock_post_reached)
  moreover
  have "returned (call_model (mock_post invoke_url (Inr \<lparr>status_code = 503, json_result = Inl JSONDecodeError\<rparr>))
          test_generator ''Hello LangChain!'') = Inr PNone"
    using call_model_absorbs_failures
      [of "mock_post invoke_url (Inr \<lparr>status_code = 503, json_result = Inl JSONDecodeError\<rparr>)"
          test_generator "''Hello LangChain!''"]
    by (simp add: mock_post_reached)
  moreover
  have "returned (call_model (mock_post invoke_url (Inr \<lparr>status_code = 200, json_result = Inl JSONDecodeError\<rparr>))
          test_generator ''Hello LangChain!'') = Inr PNone"
    using call_model_absorbs_failures
      [of "mock_post invoke_url (Inr \<lparr>status_code = 200, json_result = Inl JSONDecodeError\<rparr>)"
          test_generator "''Hello LangChain!''"]
    by (simp add: mock_post_reached)
  ultimately show ?thesis by blast
qed

text \<open>
  Claim C3 as it is stated fails: the POST can raise an exception that is no
  \<^verbatim>\<open>RequestException\<close>, such as the \<^verbatim>\<open>LocationParseError\<close> of urllib3, which is a
  \<^verbatim>\<open>ValueError\<close>; neither handler of the first \<^verbatim>\<open>try\<close> catches it, and it leaves
  \<^verbatim>\<open>_call_model\<close>.
\<close>

theorem call_model_value_error_counterexample:
  "returned (call_model (mock_post invoke_url (Inl ValueError)) test_generator ''Hello LangChain!'')
     = Inl ValueError \<and>
   returned (call_model (mock_post invoke_url (Inl ValueError)) test_generator ''Hello LangChain!'')
     \<noteq> Inr PNone"
proof -
  have "mock_post invoke_url (Inl ValueError) (build_request test_generator ''Hello LangChain!'')
          = Inl ValueError"
    by (rule mock_post_reached)
  moreover have "\<not> is_RequestException ValueError" by simp
  ultimately have
    "returned (call_model (mock_post invoke_url (Inl ValueError)) test_generator ''Hello LangChain!'')
       = Inl ValueError"
    by (rule call_model_foreign_exception)
  then show ?thesis by simp
qed

text \<open>
  Claim C9. The POST of the requests library does not itself raise \<^verbatim>\<open>HTTPError\<close>. So
  whenever the \<^verbatim>\<open>HTTPError\<close> handler of \<^verbatim>\<open>_call_model\<close> runs, \<^verbatim>\<open>response\<close> is bound and
  its status is in 400-499 or in 500-599: the handler returns \<^verbatim>\<open>None\<close>, it does not fail
  on an unbound variable and it does not fall through to the parsing of the response.
\<close>

theorem http_error_handler_response_bound:
  assumes contract: "\<forall>e. ep req = Inl e \<longrightarrow> \<not> is_HTTPError e"
      and body: "post_and_check ep req = (response, Some e)"
      and caught: "is_HTTPError e"
  shows "\<exists>r logs. response = Some r \<and>
           (400 \<le> status_code r \<and> status_code r < 500 \<or>
            500 \<le> status_code r \<and> status_code r < 600) \<and>
           http_error_handler response = Returned PNone logs \<and>
           http_error_handler response \<noteq> Raised UnboundLocalError \<and>
           http_error_handler response \<noteq> Proceed \<and>
           first_try ep req = (response, Returned PNone logs)"
proof (cases "ep req")
  case (Inl e')
  with body have "e' = e" by (simp add: post_and_check_def)
  with Inl contract caught show ?thesis by simp
next
  case (Inr r)
  with body have bound: "response = Some r" and raised: "raise_for_status r = Inl e"
    by (auto simp: post_and_check_def split: sum.splits)
  from raised have range: "400 \<le> status_code r \<and> status_code r < 500 \<or>
      500 \<le> status_code r \<and> status_code r < 600"
    by (auto simp: raise_for_status_def split: if_splits)
  then obtain logs where handler: "http_error_handler (Some r) = Returned PNone logs"
    by (auto simp: http_error_handler_def)
  from Inr range handler have "first_try ep req = (Some r, Returned PNone logs)"
    by (auto simp: first_try_returns http_error_handler_def split: if_splits)
  with bound range handler show ?thesis by auto
qed

theorem http_error_handler_response_bound_witness:
  "post_and_check (mock_post invoke_url (Inr \<lparr>status_code = 404, json_result = Inr (PDict [])\<rparr>))
      (build_request test_generator ''Hello LangChain!'')
     = (Some \<lparr>status_code = 404, json_result = Inr (PDict [])\<rparr>, Some HTTPError) \<and>
   http_error_handler (Some \<lparr>status_code = 404, json_result = Inr (PDict [])\<rparr>)
     = Returned PNone [ClientError]"
proof -
  have body: "post_and_check (mock_post invoke_url (Inr \<lparr>status_code = 404, json_result = Inr (PDict [])\<rparr>))
      (build_request test_generator ''Hello LangChain!'')
     = (Some \<lparr>status_code = 404, json_result = Inr (PDict [])\<rparr>, Some HTTPError)"
    by (simp add: post_and_check_def mock_post_reached raise_for_status_def)
  have contract: "\<forall>e. mock_post invoke_url (Inr \<lparr>status_code = 404, json_result = Inr (PDict [])\<rparr>)
      (build_request test_generator ''Hello LangChain!'') = Inl e \<longrightarrow> \<not> is_HTTPError e"
    by (simp add: mock_post_reached)
  have caught: "is_HTTPError HTTPError" by simp
  from http_error_handler_response_bound [OF contract body caught] body
  show ?thesis by (auto simp: http_error_handler_def)
qed

text \<open>
  Claim C10. \<^verbatim>\<open>_call_model\<close> changes no field of the instance: after an invocation the
  name, the full name, the generation count, the configuration tag and the endpoint are
  what they were, and a second identical invocation against an endpoint that answers the
  same request in the same way returns what the first returned.
\<close>

theorem call_model_frame:
  "self_after (call_model ep self prompt) = self \<and>
   name (self_after (call_model ep self prompt)) = name self \<and>
   fullname (self_after (call_model ep self prompt)) = fullname self \<and>
   generations (self_after (call_model ep self prompt)) = generations self \<and>
   config_hash (self_after (call_model ep self prompt)) = config_hash self \<and>
   api_endpoint (self_after (call_model ep self prompt)) = api_endpoint self \<and>
   returned (snd (call_twice ep self prompt)) = returned (fst (call_twice ep self prompt)) \<and>
   logged (snd (call_twice ep self prompt)) = logged (fst (call_twice ep self prompt)) \<and>
   self_after (snd (call_twice ep self prompt)) = self"
proof -
  have unchanged: "self_after (call_model ep self prompt) = self"
    by (simp add: call_model_def split: prod.splits flow.splits)
  then have "call_twice ep self prompt = (call_model ep self prompt, call_model ep self prompt)"
    by (simp add: call_twice_def Let_def)
  with unchanged show ?thesis by simp
qed

theorem call_model_frame_witness:
  "self_after (call_model (mock_post invoke_url (Inr \<lparr>status_code = 200, json_result = Inr (PDict [])\<rparr>))
      test_generator ''Hello LangChain!'') = test_generator \<and>
   returned (snd (call_twice (mock_post invoke_url (Inr \<lparr>status_code = 200, json_result = Inr (PDict [])\<rparr>))
      test_generator ''Hello LangChain!''))
     = returned (fst (call_twice (mock_post invoke_url (Inr \<lparr>status_code = 200, json_result = Inr (PDict [])\<rparr>))
      test_generator ''Hello LangChain!''))"
  using call_model_frame
    [of "mock_post invoke_url (Inr \<lparr>status_code = 200, json_result = Inr (PDict [])\<rparr>)"
        test_generator "''Hello LangChain!''"]
  by blast

end
